theory Spec2Isabelle
  imports Main "HOL-Library.AList"
begin

section \<open>The record store of the file de-duplication system\<close>

text \<open>
  A shallow embedding of \<^verbatim>\<open>src/lib/database.ts\<close>, \<^verbatim>\<open>src/lib/fileUtils.ts\<close> and the
  route handlers \<^verbatim>\<open>POST /api/upload\<close> and \<^verbatim>\<open>GET /api/files\<close>.

  What lies outside the repository is a parameter of the model:
  \<^item> \<^verbatim>\<open>uuidv4()\<close> and \<^verbatim>\<open>new Date()\<close>: the identifier and the time (milliseconds) drawn by
    \<^verbatim>\<open>insertFile\<close> are arguments \<open>uuid\<close> and \<open>now\<close>;
  \<^item> \<^verbatim>\<open>createHash('sha256')\<close>: the digest is a function \<open>H\<close> from the bytes to a string;
  \<^item> \<^verbatim>\<open>parseInt\<close>: a function from the query string to a number or \<open>NaN\<close>.

  A request handler is run on its own, from its first statement to its response: requests
  that interleave at an \<^verbatim>\<open>await\<close> are not modelled.

  A JavaScript \<^verbatim>\<open>Map\<close> keeps its keys in insertion order, and \<^verbatim>\<open>set\<close> on a key that is
  present replaces the value where it stands. That is \<^const>\<open>AList.update\<close> on an association
  list; \<^verbatim>\<open>get\<close> is \<^const>\<open>map_of\<close>.
\<close>

subsection \<open>Data\<close>

datatype status = Pending | Processing | Completed | Failed

text \<open>\<^verbatim>\<open>Omit<FileRecord, 'id' | 'created_at'>\<close>, and \<^verbatim>\<open>FileRecord\<close> as its extension.\<close>

record file_data =
  file_name :: string
  file_hash :: string
  file_size :: nat
  mime_type :: string
  chunk_count :: "nat option"
  processing_status :: status

record FileRecord = file_data +
  file_id :: string
  created_at :: int

record SimulatedDatabase =
  files :: "(string \<times> FileRecord) list"
  hashIndex :: "(string \<times> string) list"

text \<open>The value thrown by \<^verbatim>\<open>throw new Error(message)\<close>.\<close>

datatype exn = Error string

definition emptyDb :: SimulatedDatabase where
  "emptyDb = \<lparr>files = [], hashIndex = []\<rparr>"

definition Map_has :: "('k \<times> 'v) list \<Rightarrow> 'k \<Rightarrow> bool" where
  "Map_has m k = (map_of m k \<noteq> None)"

definition Map_set :: "('k \<times> 'v) list \<Rightarrow> 'k \<Rightarrow> 'v \<Rightarrow> ('k \<times> 'v) list" where
  "Map_set m k v = AList.update k v m"

definition Map_values :: "('k \<times> 'v) list \<Rightarrow> 'v list" where
  "Map_values m = map snd m"

definition Map_size :: "('k \<times> 'v) list \<Rightarrow> nat" where
  "Map_size m = length m"

subsection \<open>The store's operations\<close>

text \<open>
  Every method takes the store and returns its result with the store after the call. A
  \<^verbatim>\<open>throw\<close> is the result \<open>Inl\<close>.
\<close>

definition insertFile ::
  "SimulatedDatabase \<Rightarrow> file_data \<Rightarrow> string \<Rightarrow> int \<Rightarrow> (exn + FileRecord) \<times> SimulatedDatabase" where
  "insertFile db fileData uuid now =
     (if Map_has (hashIndex db) (file_hash fileData)
      then (Inl (Error (''File with hash '' @ file_hash fileData @ '' already exists'')), db)
      else
        let record = \<lparr>file_name = file_name fileData, file_hash = file_hash fileData,
                       file_size = file_size fileData, mime_type = mime_type fileData,
                       chunk_count = chunk_count fileData,
                       processing_status = processing_status fileData,
                       file_id = uuid, created_at = now\<rparr>
        in (Inr record,
            db\<lparr>files := Map_set (files db) uuid record,
               hashIndex := Map_set (hashIndex db) (file_hash fileData) uuid\<rparr>))"

text \<open>\<^verbatim>\<open>if (!id) return null\<close>: the empty string is falsy as well.\<close>

definition findByHash ::
  "SimulatedDatabase \<Rightarrow> string \<Rightarrow> FileRecord option \<times> SimulatedDatabase" where
  "findByHash db hash =
     (case map_of (hashIndex db) hash of
        None \<Rightarrow> (None, db)
      | Some i \<Rightarrow> if i = [] then (None, db) else (map_of (files db) i, db))"

definition findById ::
  "SimulatedDatabase \<Rightarrow> string \<Rightarrow> FileRecord option \<times> SimulatedDatabase" where
  "findById db i = (map_of (files db) i, db)"

text \<open>
  A JavaScript number that \<^verbatim>\<open>parseInt\<close> can give: an integer or \<^verbatim>\<open>NaN\<close>.
  \<^verbatim>\<open>Array.prototype.slice\<close> reads \<^verbatim>\<open>NaN\<close> as 0 and a negative index from the end.
\<close>

datatype jsnum = NaN | Num int

fun js_add :: "jsnum \<Rightarrow> jsnum \<Rightarrow> jsnum" where
  "js_add (Num a) (Num b) = Num (a + b)"
| "js_add _ _ = NaN"

fun Math_min :: "jsnum \<Rightarrow> jsnum \<Rightarrow> jsnum" where
  "Math_min (Num a) (Num b) = Num (min a b)"
| "Math_min _ _ = NaN"

fun Math_max :: "jsnum \<Rightarrow> jsnum \<Rightarrow> jsnum" where
  "Math_max (Num a) (Num b) = Num (max a b)"
| "Math_max _ _ = NaN"

fun js_less :: "jsnum \<Rightarrow> jsnum \<Rightarrow> bool" where
  "js_less (Num a) (Num b) = (a < b)"
| "js_less _ _ = False"

fun toInteger :: "jsnum \<Rightarrow> int" where
  "toInteger NaN = 0"
| "toInteger (Num a) = a"

definition relativeIndex :: "nat \<Rightarrow> int \<Rightarrow> nat" where
  "relativeIndex len i = (if i < 0 then nat (max (int len + i) 0) else nat (min i (int len)))"

definition slice :: "'a list \<Rightarrow> jsnum \<Rightarrow> jsnum \<Rightarrow> 'a list" where
  "slice xs start stop =
     (let k = relativeIndex (length xs) (toInteger start);
          final = relativeIndex (length xs) (toInteger stop)
      in take (final - k) (drop k xs))"

text \<open>
  \<^verbatim>\<open>Array.from(this.files.values())\<close> is a fresh array, so \<^verbatim>\<open>sort\<close> leaves the map as it is.
  \<^verbatim>\<open>sort\<close> is stable; with the comparator \<^verbatim>\<open>b.created_at - a.created_at\<close> it is the stable
  insertion sort on the negated time. An argument left out takes its default.
\<close>

definition getAllFiles ::
  "SimulatedDatabase \<Rightarrow> jsnum option \<Rightarrow> jsnum option \<Rightarrow> FileRecord list \<times> SimulatedDatabase" where
  "getAllFiles db limit offset =
     (let lim = (case limit of None \<Rightarrow> Num 50 | Some l \<Rightarrow> l);
          off = (case offset of None \<Rightarrow> Num 0 | Some o' \<Rightarrow> o');
          allFiles = sort_key (\<lambda>r. - created_at r) (Map_values (files db))
      in (slice allFiles off (js_add off lim), db))"

text \<open>
  \<^verbatim>\<open>record.processing_status = status\<close> writes into the object the map holds: the entry keeps
  its place. An unknown id is a no-op. The method has no \<^verbatim>\<open>throw\<close>.
\<close>

definition updateProcessingStatus ::
  "SimulatedDatabase \<Rightarrow> string \<Rightarrow> status \<Rightarrow> nat option \<Rightarrow> SimulatedDatabase" where
  "updateProcessingStatus db i st chunkCount =
     (case map_of (files db) i of
        None \<Rightarrow> db
      | Some record \<Rightarrow>
          let record1 = record\<lparr>processing_status := st\<rparr>;
              record2 = (case chunkCount of None \<Rightarrow> record1
                         | Some c \<Rightarrow> record1\<lparr>chunk_count := Some c\<rparr>)
          in db\<lparr>files := Map_set (files db) i record2\<rparr>)"

record stats =
  totalFiles :: nat
  uniqueHashes :: nat
  processingStats :: "(status \<times> nat) list"

text \<open>\<^verbatim>\<open>processingStats[s] = (processingStats[s] || 0) + 1\<close>, on an object whose keys are statuses.\<close>

definition countStatus :: "(status \<times> nat) list \<Rightarrow> FileRecord \<Rightarrow> (status \<times> nat) list" where
  "countStatus ps file =
     Map_set ps (processing_status file)
       ((case map_of ps (processing_status file) of None \<Rightarrow> 0 | Some n \<Rightarrow> n) + 1)"

definition getStats :: "SimulatedDatabase \<Rightarrow> stats \<times> SimulatedDatabase" where
  "getStats db =
     (let filesArray = Map_values (files db)
      in (\<lparr>totalFiles = Map_size (files db),
           uniqueHashes = Map_size (hashIndex db),
           processingStats = foldl countStatus [] filesArray\<rparr>, db))"

subsection \<open>File utilities\<close>

record validation =
  isValid :: bool
  error :: "string option"

fun digit :: "nat \<Rightarrow> char" where
  "digit n = (''0123456789'' ! (n mod 10))"

function show_nat :: "nat \<Rightarrow> string" where
  "show_nat n = (if n < 10 then [digit n] else show_nat (n div 10) @ [digit n])"
  by pat_completeness auto
termination
  by (relation "measure id") auto

text \<open>\<^verbatim>\<open>Math.round(n / 1024 / 1024)\<close> on a byte count: halves round up.\<close>

definition roundMB :: "nat \<Rightarrow> nat" where
  "roundMB n = (n + 524288) div 1048576"

definition defaultMaxSizeBytes :: nat where
  "defaultMaxSizeBytes = 100 * 1024 * 1024"

definition validateFile :: "nat \<Rightarrow> nat \<Rightarrow> validation" where
  "validateFile fileSize maxSizeBytes =
     (if fileSize > maxSizeBytes
      then \<lparr>isValid = False,
            error = Some (''File size ('' @ show_nat (roundMB fileSize)
                          @ ''MB) exceeds maximum allowed size (''
                          @ show_nat (roundMB maxSizeBytes) @ ''MB)'')\<rparr>
      else if fileSize = 0
      then \<lparr>isValid = False, error = Some ''File is empty''\<rparr>
      else \<lparr>isValid = True, error = None\<rparr>)"

text \<open>The uploaded \<^verbatim>\<open>File\<close>: its \<^verbatim>\<open>size\<close> is the length of its bytes.\<close>

record upload =
  upload_name :: string
  upload_type :: string
  upload_bytes :: string

definition upload_size :: "upload \<Rightarrow> nat" where
  "upload_size file = length (upload_bytes file)"

definition generateFileMetadata :: "upload \<Rightarrow> string \<Rightarrow> file_data" where
  "generateFileMetadata file hash =
     \<lparr>file_name = upload_name file, file_hash = hash, file_size = upload_size file,
      mime_type = (if upload_type file = [] then ''application/octet-stream''
                   else upload_type file),
      chunk_count = None, processing_status = Pending\<rparr>"

record rag_result =
  success :: bool
  chunkCount :: nat

text \<open>The simulated job; its delay and the time it reports are left out.\<close>

definition simulateRAGProcessing :: "string \<Rightarrow> string \<Rightarrow> nat \<Rightarrow> exn + rag_result" where
  "simulateRAGProcessing fileId fileName fileSize =
     Inr \<lparr>success = True, chunkCount = max 1 (fileSize div 667)\<rparr>"

subsection \<open>The background job\<close>

text \<open>
  \<^verbatim>\<open>processFileInBackground\<close> runs up to its first \<^verbatim>\<open>await\<close> inside the caller: the status
  is \<^verbatim>\<open>processing\<close> when the call returns. The rest runs when the job has an outcome:
  \<open>Inl\<close> when it threw, which the \<^verbatim>\<open>catch\<close> block handles.
\<close>

definition processFileInBackground_start :: "SimulatedDatabase \<Rightarrow> string \<Rightarrow> SimulatedDatabase" where
  "processFileInBackground_start db fileId = updateProcessingStatus db fileId Processing None"

definition processFileInBackground_resume ::
  "SimulatedDatabase \<Rightarrow> string \<Rightarrow> exn + rag_result \<Rightarrow> SimulatedDatabase" where
  "processFileInBackground_resume db fileId outcome =
     (case outcome of
        Inr result \<Rightarrow>
          if success result
          then updateProcessingStatus db fileId Completed (Some (chunkCount result))
          else updateProcessingStatus db fileId Failed None
      | Inl e \<Rightarrow> updateProcessingStatus db fileId Failed None)"

text \<open>The whole job with nothing in between, over any job \<open>rag\<close>.\<close>

definition processFileInBackground ::
  "(string \<Rightarrow> string \<Rightarrow> nat \<Rightarrow> exn + rag_result) \<Rightarrow>
   SimulatedDatabase \<Rightarrow> string \<Rightarrow> string \<Rightarrow> nat \<Rightarrow> SimulatedDatabase" where
  "processFileInBackground rag db fileId fileName fileSize =
     processFileInBackground_resume (processFileInBackground_start db fileId) fileId
       (rag fileId fileName fileSize)"

subsection \<open>The upload route\<close>

record file_json =
  j_id :: string
  j_name :: string
  j_hash :: string
  j_size :: nat
  j_mimeType :: string
  j_createdAt :: int
  j_processingStatus :: status
  j_chunkCount :: "nat option"

datatype upload_response =
    BadRequest "string option"
  | InternalServerError string
  | UploadResult (duplicate: bool) (message: string) (json_file: file_json)

definition toJson :: "FileRecord \<Rightarrow> file_json" where
  "toJson f = \<lparr>j_id = file_id f, j_name = file_name f, j_hash = file_hash f,
               j_size = file_size f, j_mimeType = mime_type f, j_createdAt = created_at f,
               j_processingStatus = processing_status f, j_chunkCount = chunk_count f\<rparr>"

text \<open>
  One request, run on its own. The third component is the job handed to
  \<^verbatim>\<open>processFileInBackground\<close>, if any. \<open>newFile\<close> is the object the map holds, so the response
  reads the status the job's first step has already written; a new record has no chunk count.
\<close>

definition POST ::
  "(string \<Rightarrow> string) \<Rightarrow> SimulatedDatabase \<Rightarrow> upload option \<Rightarrow> string \<Rightarrow> int \<Rightarrow>
   upload_response \<times> SimulatedDatabase \<times> (string \<times> string \<times> nat) option" where
  "POST H db request uuid now =
     (case request of
        None \<Rightarrow> (BadRequest (Some ''No file provided''), db, None)
      | Some file \<Rightarrow>
          let validation = validateFile (upload_size file) defaultMaxSizeBytes in
          if \<not> isValid validation then (BadRequest (error validation), db, None)
          else
            let fileHash = H (upload_bytes file);
                (existingFile, db0) = findByHash db fileHash
            in case existingFile of
                 Some existing \<Rightarrow>
                   (UploadResult True ''File already exists in the system'' (toJson existing),
                    db0, None)
               | None \<Rightarrow>
                   let metadata = generateFileMetadata file fileHash
                   in case insertFile db0 metadata uuid now of
                        (Inl (Error m), db1) \<Rightarrow> (InternalServerError m, db1, None)
                      | (Inr newFile, db1) \<Rightarrow>
                          let db2 = processFileInBackground_start db1 (file_id newFile);
                              newFile' = (case map_of (files db2) (file_id newFile) of
                                            Some r \<Rightarrow> r | None \<Rightarrow> newFile)
                          in (UploadResult False
                                ''File uploaded successfully and processing started''
                                ((toJson newFile')\<lparr>j_chunkCount := None\<rparr>),
                              db2,
                              Some (file_id newFile, upload_name file, upload_size file)))"

subsection \<open>The listing route\<close>

record pagination =
  pg_limit :: jsnum
  pg_offset :: jsnum
  pg_total :: nat
  pg_hasMore :: bool

record files_response =
  fr_files :: "file_json list"
  fr_pagination :: pagination
  fr_stats :: stats

text \<open>
  \<^verbatim>\<open>searchParams.get(..) || '50'\<close>: a parameter that is absent or empty takes the default.
  \<open>formattedFile\<close> is the object built for each listed file (\<^verbatim>\<open>chunk_count || 0\<close>);
  \<^verbatim>\<open>sizeFormatted\<close>, a floating-point rendering, is left out of it.
\<close>

definition formattedFile :: "FileRecord \<Rightarrow> file_json" where
  "formattedFile f =
     (toJson f)\<lparr>j_chunkCount := Some (case chunk_count f of None \<Rightarrow> 0 | Some c \<Rightarrow> c)\<rparr>"

definition orDefault :: "string option \<Rightarrow> string \<Rightarrow> string" where
  "orDefault p d = (case p of None \<Rightarrow> d | Some s \<Rightarrow> if s = [] then d else s)"

definition GET_files ::
  "(string \<Rightarrow> jsnum) \<Rightarrow> SimulatedDatabase \<Rightarrow> string option \<Rightarrow> string option \<Rightarrow>
   files_response \<times> SimulatedDatabase" where
  "GET_files parseInt db limitParam offsetParam =
     (let limit = Math_min (parseInt (orDefault limitParam ''50'')) (Num 100);
          offset = Math_max (parseInt (orDefault offsetParam ''0'')) (Num 0);
          (fs, db1) = getAllFiles db (Some limit) (Some offset);
          (st, db2) = getStats db1;
          formattedFiles = map formattedFile fs
      in (\<lparr>fr_files = formattedFiles,
           fr_pagination = \<lparr>pg_limit = limit, pg_offset = offset, pg_total = totalFiles st,
                            pg_hasMore = js_less (js_add offset limit)
                                           (Num (int (totalFiles st)))\<rparr>,
           fr_stats = st\<rparr>, db2))"

subsection \<open>Runs of the store\<close>

text \<open>
  A run is any sequence of calls of the two mutating methods, from any caller. The
  identifiers come from \<^verbatim>\<open>uuidv4\<close>, whose contract is that an identifier it returns is not
  empty and not one the store already holds; an insert that throws draws none.
\<close>

datatype op =
    InsertFile file_data string int
  | UpdateProcessingStatus string status "nat option"

fun exec :: "SimulatedDatabase \<Rightarrow> op \<Rightarrow> SimulatedDatabase" where
  "exec db (InsertFile fileData uuid now) = snd (insertFile db fileData uuid now)"
| "exec db (UpdateProcessingStatus i st c) = updateProcessingStatus db i st c"

definition run :: "SimulatedDatabase \<Rightarrow> op list \<Rightarrow> SimulatedDatabase" where
  "run db ops = foldl exec db ops"

definition uuid_fresh :: "SimulatedDatabase \<Rightarrow> string \<Rightarrow> bool" where
  "uuid_fresh db uuid = (uuid \<noteq> [] \<and> \<not> Map_has (files db) uuid)"

fun uuids_fresh :: "SimulatedDatabase \<Rightarrow> op list \<Rightarrow> bool" where
  "uuids_fresh db [] = True"
| "uuids_fresh db (InsertFile fileData uuid now # ops) =
     ((Map_has (hashIndex db) (file_hash fileData) \<or> uuid_fresh db uuid)
      \<and> uuids_fresh (exec db (InsertFile fileData uuid now)) ops)"
| "uuids_fresh db (UpdateProcessingStatus i st c # ops) =
     uuids_fresh (exec db (UpdateProcessingStatus i st c)) ops"

fun inserted_hashes :: "op list \<Rightarrow> string list" where
  "inserted_hashes [] = []"
| "inserted_hashes (InsertFile fileData uuid now # ops) = file_hash fileData # inserted_hashes ops"
| "inserted_hashes (UpdateProcessingStatus i st c # ops) = inserted_hashes ops"

text \<open>The records of the store, and those with a given fingerprint.\<close>

definition records :: "SimulatedDatabase \<Rightarrow> FileRecord list" where
  "records db = Map_values (files db)"

definition with_hash :: "SimulatedDatabase \<Rightarrow> string \<Rightarrow> FileRecord list" where
  "with_hash db h = filter (\<lambda>r. file_hash r = h) (records db)"

text \<open>
  What every run keeps: the index lists, entry for entry, the fingerprint and the key of
  each stored record; keys and fingerprints are distinct; a record is stored under its own,
  non-empty, id.
\<close>

definition store_inv :: "SimulatedDatabase \<Rightarrow> bool" where
  "store_inv db \<longleftrightarrow>
     hashIndex db = map (\<lambda>(k, r). (file_hash r, k)) (files db)
     \<and> distinct (map fst (files db))
     \<and> distinct (map (\<lambda>(k, r). file_hash r) (files db))
     \<and> list_all (\<lambda>(k, r). file_id r = k \<and> k \<noteq> []) (files db)"

subsection \<open>Notions used in the statements\<close>

text \<open>The record \<^verbatim>\<open>{ id, ...fileData, created_at: new Date() }\<close> that a successful insert stores.\<close>

definition mkRecord :: "file_data \<Rightarrow> string \<Rightarrow> int \<Rightarrow> FileRecord" where
  "mkRecord fd uuid now = \<lparr>file_name = file_name fd, file_hash = file_hash fd,
      file_size = file_size fd, mime_type = mime_type fd, chunk_count = chunk_count fd,
      processing_status = processing_status fd, file_id = uuid, created_at = now\<rparr>"

text \<open>The message of the size check in \<^verbatim>\<open>validateFile\<close>.\<close>

definition tooLargeMessage :: "nat \<Rightarrow> nat \<Rightarrow> string" where
  "tooLargeMessage fileSize maxSizeBytes =
     ''File size ('' @ show_nat (roundMB fileSize) @ ''MB) exceeds maximum allowed size (''
       @ show_nat (roundMB maxSizeBytes) @ ''MB)''"

text \<open>An upload that is not empty and within the default maximum: what \<^verbatim>\<open>validateFile\<close> accepts.\<close>

definition valid_upload :: "upload \<Rightarrow> bool" where
  "valid_upload file = (0 < upload_size file \<and> upload_size file \<le> defaultMaxSizeBytes)"

text \<open>The job failed: it threw, or it reported no success.\<close>

definition job_failed :: "exn + rag_result \<Rightarrow> bool" where
  "job_failed outcome = (case outcome of Inl e \<Rightarrow> True | Inr result \<Rightarrow> \<not> success result)"

text \<open>The terminal states of the processing state machine.\<close>

fun terminal :: "status \<Rightarrow> bool" where
  "terminal Completed = True"
| "terminal Failed = True"
| "terminal _ = False"

text \<open>The calls that are status updates.\<close>

fun is_update :: "op \<Rightarrow> bool" where
  "is_update (UpdateProcessingStatus i st c) = True"
| "is_update (InsertFile fileData uuid now) = False"

text \<open>All records, newest first: the array that \<^verbatim>\<open>getAllFiles\<close> slices.\<close>

definition newest_first :: "SimulatedDatabase \<Rightarrow> FileRecord list" where
  "newest_first db = sort_key (\<lambda>r. - created_at r) (records db)"

subsection \<open>Example data\<close>

definition fd_a :: file_data where
  "fd_a = \<lparr>file_name = ''a.txt'', file_hash = ''aa'', file_size = 13, mime_type = ''text/plain'',
            chunk_count = None, processing_status = Pending\<rparr>"

definition fd_b :: file_data where
  "fd_b = \<lparr>file_name = ''b.txt'', file_hash = ''bb'', file_size = 7, mime_type = ''text/plain'',
            chunk_count = None, processing_status = Pending\<rparr>"

definition ops_a :: "op list" where
  "ops_a = [InsertFile fd_a ''id-1'' 1000, UpdateProcessingStatus ''id-1'' Processing None]"

definition ops_b :: "op list" where
  "ops_b = [InsertFile fd_a ''id-1'' 1000, InsertFile fd_b ''id-2'' 1001,
            InsertFile fd_a ''id-3'' 1002,
            UpdateProcessingStatus ''id-1'' Processing None,
            UpdateProcessingStatus ''id-1'' Completed (Some 5)]"

definition empty_upload :: upload where
  "empty_upload = \<lparr>upload_name = ''empty.txt'', upload_type = ''text/plain'', upload_bytes = []\<rparr>"

definition large_upload :: upload where
  "large_upload = \<lparr>upload_name = ''large.bin'', upload_type = [],
                    upload_bytes = replicate 104857601 (CHR ''x'')\<rparr>"

definition H_example :: "string \<Rightarrow> string" where
  "H_example bytes =
     (if bytes = ''Hello, World!''
      then ''dffd6021bb2bd5b0af676290809ec3a53191dd81c7f70a4b28688a362182986f''
      else ''h'' @ bytes)"

definition db_a :: SimulatedDatabase where
  "db_a = run emptyDb [InsertFile fd_a ''id-1'' 1000]"

definition rec_a :: FileRecord where
  "rec_a = mkRecord fd_a ''id-1'' 1000"

definition db_c :: SimulatedDatabase where
  "db_c = run emptyDb [InsertFile fd_a ''id-1'' 1000,
                       UpdateProcessingStatus ''id-1'' Processing None,
                       UpdateProcessingStatus ''id-1'' Completed (Some 5)]"

definition rec_c :: FileRecord where
  "rec_c = rec_a\<lparr>processing_status := Completed, chunk_count := Some 5\<rparr>"

definition hello :: upload where
  "hello = \<lparr>upload_name = ''hello.txt'', upload_type = ''text/plain'',
            upload_bytes = ''Hello, World!''\<rparr>"

definition hello_again :: upload where
  "hello_again = \<lparr>upload_name = ''copy.txt'', upload_type = [],
                  upload_bytes = ''Hello, World!''\<rparr>"

definition hello_record :: FileRecord where
  "hello_record =
     \<lparr>file_name = ''hello.txt'',
      file_hash = ''dffd6021bb2bd5b0af676290809ec3a53191dd81c7f70a4b28688a362182986f'',
      file_size = 13, mime_type = ''text/plain'', chunk_count = None,
      processing_status = Processing, file_id = ''id-1'', created_at = 1000\<rparr>"

definition db_hello :: SimulatedDatabase where
  "db_hello = \<lparr>files = [(''id-1'', hello_record)],
               hashIndex = [(''dffd6021bb2bd5b0af676290809ec3a53191dd81c7f70a4b28688a362182986f'',
                             ''id-1'')]\<rparr>"

definition job_done :: "op list" where
  "job_done = [UpdateProcessingStatus ''id-1'' Completed (Some 1)]"

definition fd_hello :: file_data where
  "fd_hello =
     \<lparr>file_name = ''hello.txt'',
      file_hash = ''dffd6021bb2bd5b0af676290809ec3a53191dd81c7f70a4b28688a362182986f'',
      file_size = 13, mime_type = ''text/plain'', chunk_count = None,
      processing_status = Pending\<rparr>"

definition ops_hello :: "op list" where
  "ops_hello = [InsertFile fd_hello ''id-1'' 1000, UpdateProcessingStatus ''id-1'' Processing None]"

definition parseInt_example :: "string \<Rightarrow> jsnum" where
  "parseInt_example s =
     (if s = ''500'' then Num 500 else if s = ''50'' then Num 50 else if s = ''2'' then Num 2
      else if s = ''0'' then Num 0 else if s = ''-1'' then Num (- 1) else NaN)"

text \<open>A run of \<open>n\<close> inserts of different contents under different ids, at times \<open>0, 1, \<dots>\<close>.\<close>

definition nth_id :: "nat \<Rightarrow> string" where
  "nth_id n = ''id-'' @ replicate n (CHR ''x'')"

definition nth_data :: "nat \<Rightarrow> file_data" where
  "nth_data n = \<lparr>file_name = ''file.txt'', file_hash = replicate (Suc n) (CHR ''a''),
                 file_size = 1, mime_type = ''text/plain'', chunk_count = None,
                 processing_status = Pending\<rparr>"

fun many_inserts :: "nat \<Rightarrow> op list" where
  "many_inserts 0 = []"
| "many_inserts (Suc n) = many_inserts n @ [InsertFile (nth_data n) (nth_id n) (int n)]"

definition db_many :: SimulatedDatabase where
  "db_many = run emptyDb (many_inserts 102)"

section \<open>Facts about association lists and the invariant\<close>

lemma update_absent: "k \<notin> fst ` set al \<Longrightarrow> AList.update k v al = al @ [(k, v)]"
  by (induction al) auto

lemma Map_has_iff: "Map_has m k \<longleftrightarrow> k \<in> fst ` set m"
  by (simp add: Map_has_def map_of_eq_None_iff)

lemma update_same_proj:
  "map_of al k = Some v \<Longrightarrow> g (k, v') = g (k, v) \<Longrightarrow> map g (AList.update k v' al) = map g al"
  by (induction al) (auto split: if_splits)

lemma fst_index: "fst \<circ> (\<lambda>(k, r). (file_hash r, k)) = (\<lambda>(k, r). file_hash r)"
  by (simp add: fun_eq_iff)

lemma index_keys: "fst ` (\<lambda>(k, r). (file_hash r, k)) ` set fs = (\<lambda>(k, r). file_hash r) ` set fs"
  by (force simp: image_iff)

lemma store_inv_empty: "store_inv emptyDb"
  by (simp add: store_inv_def emptyDb_def)

lemma insertFile_conflict:
  "Map_has (hashIndex db) (file_hash fd) \<Longrightarrow>
   insertFile db fd uuid now =
     (Inl (Error (''File with hash '' @ file_hash fd @ '' already exists'')), db)"
  by (simp add: insertFile_def)

lemma insertFile_fresh:
  assumes "\<not> Map_has (hashIndex db) (file_hash fd)" and "uuid_fresh db uuid"
  shows "insertFile db fd uuid now =
     (Inr (mkRecord fd uuid now),
      db\<lparr>files := files db @ [(uuid, mkRecord fd uuid now)],
         hashIndex := hashIndex db @ [(file_hash fd, uuid)]\<rparr>)"
  using assms
  by (simp add: insertFile_def mkRecord_def Map_set_def uuid_fresh_def Map_has_iff update_absent Let_def)

lemma store_inv_insertFile:
  assumes "store_inv db" and "Map_has (hashIndex db) (file_hash fd) \<or> uuid_fresh db uuid"
  shows "store_inv (snd (insertFile db fd uuid now))"
proof (cases "Map_has (hashIndex db) (file_hash fd)")
  case True
  then show ?thesis using assms(1) by (simp add: insertFile_conflict)
next
  case False
  with assms(2) have fr: "uuid_fresh db uuid" by simp
  have h: "file_hash fd \<notin> fst ` set (hashIndex db)" using False by (simp add: Map_has_iff)
  have u: "uuid \<notin> fst ` set (files db)" "uuid \<noteq> []" using fr by (simp_all add: uuid_fresh_def Map_has_iff)
  show ?thesis
    using assms(1) h u
    by (simp add: insertFile_fresh[OF False fr] store_inv_def mkRecord_def index_keys)
qed

lemma updateProcessingStatus_files:
  "map_of (files db) i = Some r \<Longrightarrow>
   updateProcessingStatus db i st c =
     db\<lparr>files := AList.update i (r\<lparr>processing_status := st,
              chunk_count := (case c of None \<Rightarrow> chunk_count r | Some n \<Rightarrow> Some n)\<rparr>) (files db)\<rparr>"
  by (cases c) (simp_all add: updateProcessingStatus_def Map_set_def Let_def)

lemma updateProcessingStatus_unknown:
  "map_of (files db) i = None \<Longrightarrow> updateProcessingStatus db i st c = db"
  by (simp add: updateProcessingStatus_def)

lemma updateProcessingStatus_hashIndex: "hashIndex (updateProcessingStatus db i st c) = hashIndex db"
  by (cases "map_of (files db) i") (simp_all add: updateProcessingStatus_files updateProcessingStatus_unknown)

lemma updateProcessingStatus_keys:
  "map fst (files (updateProcessingStatus db i st c)) = map fst (files db)"
  by (cases "map_of (files db) i")
     (simp_all add: updateProcessingStatus_files updateProcessingStatus_unknown update_same_proj)

lemma updateProcessingStatus_hashes:
  "map (\<lambda>(k, r). file_hash r) (files (updateProcessingStatus db i st c))
   = map (\<lambda>(k, r). file_hash r) (files db)"
  by (cases "map_of (files db) i")
     (simp_all add: updateProcessingStatus_files updateProcessingStatus_unknown update_same_proj)

lemma updateProcessingStatus_index:
  "map (\<lambda>(k, r). (file_hash r, k)) (files (updateProcessingStatus db i st c))
   = map (\<lambda>(k, r). (file_hash r, k)) (files db)"
  by (cases "map_of (files db) i")
     (simp_all add: updateProcessingStatus_files updateProcessingStatus_unknown update_same_proj)

lemma list_all_update:
  "list_all P al \<Longrightarrow> P (k, v) \<Longrightarrow> list_all P (AList.update k v al)"
  by (induction al) auto

lemma store_inv_updateProcessingStatus:
  assumes "store_inv db"
  shows "store_inv (updateProcessingStatus db i st c)"
proof (cases "map_of (files db) i")
  case None
  then show ?thesis using assms by (simp add: updateProcessingStatus_unknown)
next
  case (Some r)
  have mem: "(i, r) \<in> set (files db)" using Some by (rule map_of_SomeD)
  have ir: "file_id r = i \<and> i \<noteq> []"
    using assms mem by (auto simp: store_inv_def list_all_iff)
  have "list_all (\<lambda>(k, r). file_id r = k \<and> k \<noteq> []) (files (updateProcessingStatus db i st c))"
    using assms ir
    by (simp add: updateProcessingStatus_files[OF Some] store_inv_def list_all_update)
  then show ?thesis
    using assms
    by (simp add: store_inv_def updateProcessingStatus_hashIndex updateProcessingStatus_keys
        updateProcessingStatus_index updateProcessingStatus_hashes)
qed

lemma store_inv_exec:
  "store_inv db \<Longrightarrow> uuids_fresh db [x] \<Longrightarrow> store_inv (exec db x)"
  by (cases x) (simp_all add: store_inv_insertFile store_inv_updateProcessingStatus)

lemma store_inv_run:
  "store_inv db \<Longrightarrow> uuids_fresh db ops \<Longrightarrow> store_inv (run db ops)"
proof (induction ops arbitrary: db)
  case Nil
  then show ?case by (simp add: run_def)
next
  case (Cons x xs)
  have "store_inv (exec db x)" using Cons.prems
    by (cases x) (auto simp: store_inv_insertFile store_inv_updateProcessingStatus)
  moreover have "uuids_fresh (exec db x) xs" using Cons.prems(2) by (cases x) auto
  ultimately have "store_inv (run (exec db x) xs)" by (rule Cons.IH)
  then show ?case by (simp add: run_def)
qed

lemma hashes_records: "map (\<lambda>(k, r). file_hash r) (files db) = map file_hash (records db)"
  by (simp add: records_def Map_values_def case_prod_unfold comp_def)

lemma Map_has_hashIndex:
  "store_inv db \<Longrightarrow> Map_has (hashIndex db) h \<longleftrightarrow> h \<in> file_hash ` set (records db)"
  by (simp add: store_inv_def Map_has_iff index_keys records_def Map_values_def image_image
      case_prod_unfold)

lemma count_distinct:
  "distinct (map f xs) \<Longrightarrow> length (filter (\<lambda>x. f x = h) xs) = (if h \<in> f ` set xs then 1 else 0)"
  by (induction xs) auto

lemma with_hash_count:
  "store_inv db \<Longrightarrow>
   length (with_hash db h) = (if h \<in> file_hash ` set (records db) then 1 else 0)"
  unfolding with_hash_def
  by (rule count_distinct) (simp add: store_inv_def hashes_records)

lemma with_hash_empty: "with_hash db h = [] \<longleftrightarrow> h \<notin> file_hash ` set (records db)"
  by (auto simp: with_hash_def filter_empty_conv)

lemma hashes_exec:
  assumes "store_inv db" and "uuids_fresh db [x]"
  shows "file_hash ` set (records (exec db x)) = file_hash ` set (records db) \<union> set (inserted_hashes [x])"
proof (cases x)
  case (InsertFile fd uuid now)
  show ?thesis
  proof (cases "Map_has (hashIndex db) (file_hash fd)")
    case True
    then have "file_hash fd \<in> file_hash ` set (records db)"
      using assms by (simp add: Map_has_hashIndex)
    then show ?thesis using True InsertFile by (auto simp: insertFile_conflict)
  next
    case False
    moreover have "uuid_fresh db uuid" using assms(2) InsertFile False by simp
    ultimately show ?thesis using InsertFile
      by (auto simp: insertFile_fresh records_def Map_values_def mkRecord_def)
  qed
next
  case (UpdateProcessingStatus i st c)
  have "map file_hash (records (updateProcessingStatus db i st c)) = map file_hash (records db)"
    using updateProcessingStatus_hashes [of db i st c] by (simp add: hashes_records)
  then have "set (map file_hash (records (updateProcessingStatus db i st c)))
             = set (map file_hash (records db))" by simp
  then show ?thesis using UpdateProcessingStatus by simp
qed

lemma hashes_run:
  "store_inv db \<Longrightarrow> uuids_fresh db ops \<Longrightarrow>
   file_hash ` set (records (run db ops)) = file_hash ` set (records db) \<union> set (inserted_hashes ops)"
proof (induction ops arbitrary: db)
  case Nil
  then show ?case by (simp add: run_def)
next
  case (Cons x xs)
  have one: "uuids_fresh db [x]" using Cons.prems(2) by (cases x) auto
  have inv: "store_inv (exec db x)" using Cons.prems(1) one by (rule store_inv_exec)
  have rest: "uuids_fresh (exec db x) xs" using Cons.prems(2) by (cases x) auto
  have "file_hash ` set (records (run (exec db x) xs))
        = file_hash ` set (records (exec db x)) \<union> set (inserted_hashes xs)"
    using inv rest by (rule Cons.IH)
  also have "file_hash ` set (records (exec db x))
        = file_hash ` set (records db) \<union> set (inserted_hashes [x])"
    using Cons.prems(1) one by (rule hashes_exec)
  finally show ?case by (cases x) (auto simp: run_def)
qed

lemma records_empty: "records emptyDb = []"
  by (simp add: records_def emptyDb_def Map_values_def)

lemma sum_countStatus: "sum_list (map snd (countStatus ps f)) = sum_list (map snd ps) + 1"
proof -
  have "sum_list (map snd (AList.update k ((case map_of ps k of None \<Rightarrow> 0 | Some n \<Rightarrow> n) + 1) ps))
        = sum_list (map snd ps) + (1::nat)" for k :: status
    by (induction ps) auto
  then show ?thesis by (simp add: countStatus_def Map_set_def)
qed

lemma sum_foldl_countStatus:
  "sum_list (map snd (foldl countStatus ps fs)) = sum_list (map snd ps) + length fs"
  by (induction fs arbitrary: ps) (simp_all add: sum_countStatus)

declare show_nat.simps [simp del]

lemma updateProcessingStatus_lookup:
  "map_of (files db) i = Some r \<Longrightarrow>
   map_of (files (updateProcessingStatus db i st c)) i
     = Some (r\<lparr>processing_status := st,
               chunk_count := (case c of None \<Rightarrow> chunk_count r | Some n \<Rightarrow> Some n)\<rparr>)"
  by (simp add: updateProcessingStatus_files AList.update_conv')

lemma updateProcessingStatus_None_chunks:
  "map chunk_count (records (updateProcessingStatus db i st None)) = map chunk_count (records db)"
proof (cases "map_of (files db) i")
  case None
  then show ?thesis by (simp add: updateProcessingStatus_unknown)
next
  case (Some r)
  have "map (chunk_count \<circ> snd) (AList.update i (r\<lparr>processing_status := st\<rparr>) (files db))
        = map (chunk_count \<circ> snd) (files db)"
    using Some by (rule update_same_proj) simp
  then show ?thesis
    using Some by (simp add: updateProcessingStatus_files records_def Map_values_def)
qed

lemma updateProcessingStatus_idem:
  "updateProcessingStatus (updateProcessingStatus db i st c) i st c = updateProcessingStatus db i st c"
proof (cases "map_of (files db) i")
  case None
  then show ?thesis by (simp add: updateProcessingStatus_unknown)
next
  case (Some r)
  let ?r' = "r\<lparr>processing_status := st,
               chunk_count := (case c of None \<Rightarrow> chunk_count r | Some n \<Rightarrow> Some n)\<rparr>"
  have l: "map_of (files (updateProcessingStatus db i st c)) i = Some ?r'"
    using Some by (rule updateProcessingStatus_lookup)
  have same: "?r'\<lparr>processing_status := st,
               chunk_count := (case c of None \<Rightarrow> chunk_count ?r' | Some n \<Rightarrow> Some n)\<rparr> = ?r'"
    by (cases c) simp_all
  show ?thesis
    unfolding updateProcessingStatus_files [OF l] same
    by (simp add: updateProcessingStatus_files [OF Some])
qed

lemma valid_upload_isValid:
  "valid_upload file \<Longrightarrow> isValid (validateFile (upload_size file) defaultMaxSizeBytes)"
  by (simp add: valid_upload_def validateFile_def)

lemma index_lookup:
  assumes "distinct (map (\<lambda>(k, r). file_hash r) fs)" and "(k, r) \<in> set fs"
  shows "map_of (map (\<lambda>(k, r). (file_hash r, k)) fs) (file_hash r) = Some k"
proof (rule map_of_is_SomeI)
  show "distinct (map fst (map (\<lambda>(k, r). (file_hash r, k)) fs))"
    using assms(1) by (simp add: fst_index)
  show "(file_hash r, k) \<in> set (map (\<lambda>(k, r). (file_hash r, k)) fs)"
    using assms(2) by force
qed

lemma findByHash_present:
  assumes "store_inv db" and "(k, r) \<in> set (files db)"
  shows "findByHash db (file_hash r) = (Some r, db)"
proof -
  have i: "map_of (hashIndex db) (file_hash r) = Some k"
    using assms by (simp add: store_inv_def index_lookup)
  have f: "map_of (files db) k = Some r"
    using assms by (simp add: store_inv_def)
  have n: "k \<noteq> []" using assms by (auto simp: store_inv_def list_all_iff)
  show ?thesis by (simp add: findByHash_def i f n)
qed

lemma findByHash_absent:
  assumes "\<not> Map_has (hashIndex db) h"
  shows "findByHash db h = (None, db)"
  using assms by (simp add: findByHash_def Map_has_def)

lemma POST_duplicate:
  assumes "valid_upload file" and "findByHash db (H (upload_bytes file)) = (Some r, db)"
  shows "POST H db (Some file) uuid now
         = (UploadResult True ''File already exists in the system'' (toJson r), db, None)"
  using assms(2) valid_upload_isValid [OF assms(1)]
  by (simp add: POST_def Let_def)

lemma POST_new:
  assumes "valid_upload file" and "\<not> Map_has (hashIndex db) (H (upload_bytes file))"
    and "uuid_fresh db uuid"
  shows "POST H db (Some file) uuid now
         = (UploadResult False ''File uploaded successfully and processing started''
              ((toJson ((mkRecord (generateFileMetadata file (H (upload_bytes file))) uuid now)
                          \<lparr>processing_status := Processing\<rparr>))\<lparr>j_chunkCount := None\<rparr>),
            processFileInBackground_start
              (snd (insertFile db (generateFileMetadata file (H (upload_bytes file))) uuid now)) uuid,
            Some (uuid, upload_name file, upload_size file))"
proof -
  let ?md = "generateFileMetadata file (H (upload_bytes file))"
  have h: "file_hash ?md = H (upload_bytes file)" by (simp add: generateFileMetadata_def)
  have nh: "\<not> Map_has (hashIndex db) (file_hash ?md)" using assms(2) h by simp
  define dbi where "dbi = snd (insertFile db ?md uuid now)"
  have ins: "insertFile db ?md uuid now = (Inr (mkRecord ?md uuid now), dbi)"
    unfolding dbi_def by (simp add: insertFile_fresh [OF nh assms(3)])
  have "map_of (files db) uuid = None"
    using assms(3) by (simp add: uuid_fresh_def Map_has_def)
  then have l: "map_of (files dbi) uuid = Some (mkRecord ?md uuid now)"
    unfolding dbi_def by (simp add: insertFile_fresh [OF nh assms(3)] map_add_def)
  have l2: "map_of (files (processFileInBackground_start dbi uuid)) uuid
            = Some ((mkRecord ?md uuid now)\<lparr>processing_status := Processing\<rparr>)"
    unfolding processFileInBackground_start_def
    using updateProcessingStatus_lookup [OF l, of Processing None] by simp
  have id: "file_id (mkRecord ?md uuid now) = uuid" by (simp add: mkRecord_def)
  have fb: "findByHash db (H (upload_bytes file)) = (None, db)"
    using assms(2) by (rule findByHash_absent)
  have v: "isValid (validateFile (upload_size file) defaultMaxSizeBytes)"
    using assms(1) by (rule valid_upload_isValid)
  have "POST H db (Some file) uuid now
         = (UploadResult False ''File uploaded successfully and processing started''
              ((toJson ((mkRecord ?md uuid now)\<lparr>processing_status := Processing\<rparr>))
                 \<lparr>j_chunkCount := None\<rparr>),
            processFileInBackground_start dbi uuid,
            Some (uuid, upload_name file, upload_size file))"
    unfolding POST_def by (simp add: Let_def v fb ins id l2)
  then show ?thesis by (simp add: dbi_def)
qed

lemma run_updates:
  "list_all is_update us \<Longrightarrow>
   map fst (files (run db us)) = map fst (files db) \<and> hashIndex (run db us) = hashIndex db
   \<and> (store_inv db \<longrightarrow> store_inv (run db us))"
proof (induction us arbitrary: db)
  case Nil
  then show ?case by (simp add: run_def)
next
  case (Cons x xs)
  then obtain i st c where x: "x = UpdateProcessingStatus i st c" by (cases x) auto
  have "list_all is_update xs" using Cons.prems by simp
  from Cons.IH [OF this, of "exec db x"] show ?case
    by (simp add: run_def x updateProcessingStatus_keys updateProcessingStatus_hashIndex
        store_inv_updateProcessingStatus)
qed

lemma sorted_newest_first:
  "sorted_wrt (\<lambda>a b. created_at b \<le> created_at a) (newest_first db)"
proof -
  have "sorted (map (\<lambda>r. - created_at r) (newest_first db))"
    unfolding newest_first_def by (rule sorted_sort_key)
  then show ?thesis by (simp add: sorted_map)
qed

lemma sorted_slice: "sorted_wrt R xs \<Longrightarrow> sorted_wrt R (slice xs start stop)"
  by (simp add: slice_def Let_def sorted_wrt_take sorted_wrt_drop)

lemma take_min_length: "take (min a (length ys)) ys = take a ys"
  by (simp add: min_def)

lemma slice_take_drop:
  assumes "0 \<le> off" and "0 \<le> l"
  shows "slice xs (Num off) (Num (off + l)) = take (nat l) (drop (nat off) xs)"
proof -
  have k: "relativeIndex (length xs) off = min (nat off) (length xs)"
    using assms by (auto simp: relativeIndex_def min_def)
  have f: "relativeIndex (length xs) (off + l) = min (nat off + nat l) (length xs)"
    using assms by (auto simp: relativeIndex_def min_def nat_add_distrib)
  show ?thesis
  proof (cases "nat off \<le> length xs")
    case True
    then have "min (nat off + nat l) (length xs) - min (nat off) (length xs)
               = min (nat l) (length (drop (nat off) xs))"
      by (auto simp: min_def)
    then show ?thesis
      using True take_min_length [of "nat l" "drop (nat off) xs"]
      by (simp add: slice_def Let_def k f min_absorb1)
  next
    case False
    then show ?thesis by (simp add: slice_def Let_def k f)
  qed
qed

lemma getAllFiles_page:
  "fst (getAllFiles db (Some lim) (Some off)) = slice (newest_first db) off (js_add off lim)"
  by (simp add: getAllFiles_def newest_first_def records_def Let_def)

lemma getAllFiles_sorted:
  "sorted_wrt (\<lambda>a b. created_at b \<le> created_at a) (fst (getAllFiles db limit offset))"
  using sorted_slice [OF sorted_newest_first]
  by (simp add: getAllFiles_def Let_def newest_first_def records_def)

lemma formattedFile_createdAt: "j_createdAt (formattedFile f) = created_at f"
  by (simp add: formattedFile_def toJson_def)

lemma GET_files_fields:
  "fr_files (fst (GET_files parseInt db limitParam offsetParam))
     = map formattedFile
         (fst (getAllFiles db
                (Some (Math_min (parseInt (orDefault limitParam ''50'')) (Num 100)))
                (Some (Math_max (parseInt (orDefault offsetParam ''0'')) (Num 0)))))
   \<and> pg_limit (fr_pagination (fst (GET_files parseInt db limitParam offsetParam)))
       = Math_min (parseInt (orDefault limitParam ''50'')) (Num 100)
   \<and> pg_offset (fr_pagination (fst (GET_files parseInt db limitParam offsetParam)))
       = Math_max (parseInt (orDefault offsetParam ''0'')) (Num 0)"
  by (simp add: GET_files_def Let_def case_prod_unfold)

text \<open>
  What the listing route does return: the page is always in newest-first order; when the
  parameters parse to integers, the limit is cut at 100 from above and the offset at 0 from
  below, and for a limit that is not negative the page has at most 100 records.
\<close>

lemma GET_files_page:
  "sorted_wrt (\<lambda>a b. created_at b \<le> created_at a) (fst (getAllFiles db limit offset))
   \<and> sorted_wrt (\<lambda>a b. j_createdAt b \<le> j_createdAt a)
        (fr_files (fst (GET_files parseInt db limitParam offsetParam)))
   \<and> (parseInt (orDefault limitParam ''50'') = Num l
        \<and> parseInt (orDefault offsetParam ''0'') = Num off \<longrightarrow>
        pg_limit (fr_pagination (fst (GET_files parseInt db limitParam offsetParam)))
          = Num (min l 100)
        \<and> pg_offset (fr_pagination (fst (GET_files parseInt db limitParam offsetParam)))
          = Num (max off 0)
        \<and> fr_files (fst (GET_files parseInt db limitParam offsetParam))
          = map formattedFile
              (fst (getAllFiles db (Some (Num (min l 100))) (Some (Num (max off 0)))))
        \<and> (0 \<le> l \<longrightarrow>
             fr_files (fst (GET_files parseInt db limitParam offsetParam))
               = map formattedFile
                   (take (nat (min l 100)) (drop (nat (max off 0)) (newest_first db)))
             \<and> length (fr_files (fst (GET_files parseInt db limitParam offsetParam))) \<le> 100))"
proof -
  note g = GET_files_fields [of parseInt db limitParam offsetParam]
  have s1: "sorted_wrt (\<lambda>a b. created_at b \<le> created_at a) (fst (getAllFiles db limit offset))"
    by (rule getAllFiles_sorted)
  have s2: "sorted_wrt (\<lambda>a b. j_createdAt b \<le> j_createdAt a)
        (fr_files (fst (GET_files parseInt db limitParam offsetParam)))"
    using getAllFiles_sorted by (simp add: g sorted_wrt_map formattedFile_createdAt)
  have s3: "fr_files (fst (GET_files parseInt db limitParam offsetParam))
               = map formattedFile
                   (take (nat (min l 100)) (drop (nat (max off 0)) (newest_first db)))
             \<and> length (fr_files (fst (GET_files parseInt db limitParam offsetParam))) \<le> 100"
    if "parseInt (orDefault limitParam ''50'') = Num l"
      and "parseInt (orDefault offsetParam ''0'') = Num off" and "0 \<le> l"
  proof -
    have "fst (getAllFiles db (Some (Num (min l 100))) (Some (Num (max off 0))))
          = take (nat (min l 100)) (drop (nat (max off 0)) (newest_first db))"
      using that(3) by (simp add: getAllFiles_page slice_take_drop)
    then show ?thesis using that by (simp add: g)
  qed
  show ?thesis using s1 s2 s3 by (auto simp: g)
qed

lemma run_snoc: "run db (xs @ [x]) = exec (run db xs) x"
  by (simp add: run_def)

lemma uuids_fresh_snoc:
  "uuids_fresh db (xs @ [x]) = (uuids_fresh db xs \<and> uuids_fresh (run db xs) [x])"
proof (induction xs arbitrary: db)
  case Nil
  then show ?case by (simp add: run_def)
next
  case (Cons y ys)
  then show ?case by (cases y) (simp_all add: run_def)
qed

lemma many_inserts_store:
  "files (run emptyDb (many_inserts n))
     = map (\<lambda>k. (nth_id k, mkRecord (nth_data k) (nth_id k) (int k))) [0..<n]
   \<and> hashIndex (run emptyDb (many_inserts n))
     = map (\<lambda>k. (file_hash (nth_data k), nth_id k)) [0..<n]
   \<and> uuids_fresh emptyDb (many_inserts n)"
proof (induction n)
  case 0
  then show ?case by (simp add: run_def emptyDb_def)
next
  case (Suc n)
  let ?db = "run emptyDb (many_inserts n)"
  have nh: "\<not> Map_has (hashIndex ?db) (file_hash (nth_data n))"
    using Suc by (auto simp: Map_has_iff nth_data_def image_iff)
  have fr: "uuid_fresh ?db (nth_id n)"
    using Suc by (auto simp: uuid_fresh_def Map_has_iff nth_id_def image_iff)
  show ?case
    using Suc nh fr
    by (simp add: run_snoc uuids_fresh_snoc insertFile_fresh [OF nh fr])
qed

lemma length_slice_all_but_last: "length (slice xs (Num 0) (Num (- 1))) = length xs - 1"
  by (simp add: slice_def Let_def relativeIndex_def)

lemma GET_files_negative_limit:
  assumes "parseInt (orDefault limitParam ''50'') = Num (- 1)"
    and "parseInt (orDefault offsetParam ''0'') = Num 0"
  shows "length (fr_files (fst (GET_files parseInt db limitParam offsetParam)))
         = length (files db) - 1"
  using assms
  by (simp add: GET_files_fields getAllFiles_page length_slice_all_but_last newest_first_def
      records_def Map_values_def)

section \<open>The claims\<close>

text \<open>
  C1. In any store reached by a run, \<^verbatim>\<open>insertFile\<close> with a fingerprint that some record
  already has throws the "already exists" error and leaves the store as it was; with a
  fingerprint that no record has (and a fresh identifier) it returns a record with that
  fingerprint and appends exactly that record and its index entry. Hence after any run the
  store holds exactly one record for each fingerprint that was inserted, and none for any other.
\<close>

theorem insertFile_unique_fingerprint:
  assumes "uuids_fresh emptyDb ops" and "db = run emptyDb ops"
  shows "(with_hash db (file_hash fileData) \<noteq> [] \<longrightarrow>
            insertFile db fileData uuid now =
              (Inl (Error (''File with hash '' @ file_hash fileData @ '' already exists'')), db))
       \<and> (with_hash db (file_hash fileData) = [] \<and> uuid_fresh db uuid \<longrightarrow>
            (\<exists>r db'. insertFile db fileData uuid now = (Inr r, db')
               \<and> file_hash r = file_hash fileData \<and> file_id r = uuid
               \<and> records db' = records db @ [r]
               \<and> hashIndex db' = hashIndex db @ [(file_hash fileData, uuid)]))
       \<and> (\<forall>h. length (with_hash db h) = (if h \<in> set (inserted_hashes ops) then 1 else 0))"
proof -
  have inv: "store_inv db"
    using assms store_inv_empty by (simp add: store_inv_run)
  have hs: "file_hash ` set (records db) = set (inserted_hashes ops)"
    using hashes_run [OF store_inv_empty assms(1)] assms(2) by (simp add: records_empty)
  have a: "with_hash db (file_hash fileData) \<noteq> [] \<longrightarrow>
            insertFile db fileData uuid now =
              (Inl (Error (''File with hash '' @ file_hash fileData @ '' already exists'')), db)"
    using inv by (simp add: with_hash_empty insertFile_conflict Map_has_hashIndex)
  have b: "with_hash db (file_hash fileData) = [] \<and> uuid_fresh db uuid \<longrightarrow>
            (\<exists>r db'. insertFile db fileData uuid now = (Inr r, db')
               \<and> file_hash r = file_hash fileData \<and> file_id r = uuid
               \<and> records db' = records db @ [r]
               \<and> hashIndex db' = hashIndex db @ [(file_hash fileData, uuid)])"
    using inv
    by (simp add: with_hash_empty Map_has_hashIndex insertFile_fresh mkRecord_def records_def
        Map_values_def)
  have c: "\<forall>h. length (with_hash db h) = (if h \<in> set (inserted_hashes ops) then 1 else 0)"
    using inv hs by (simp add: with_hash_count)
  from a b c show ?thesis by blast
qed

theorem insertFile_unique_fingerprint_witness:
  "uuids_fresh emptyDb ops_a
   \<and> insertFile (run emptyDb ops_a) fd_a ''id-2'' 2000
       = (Inl (Error (''File with hash '' @ file_hash fd_a @ '' already exists'')), run emptyDb ops_a)
   \<and> (\<exists>r db'. insertFile (run emptyDb ops_a) fd_b ''id-2'' 2000 = (Inr r, db')
         \<and> file_hash r = file_hash fd_b \<and> file_id r = ''id-2''
         \<and> records db' = records (run emptyDb ops_a) @ [r]
         \<and> hashIndex db' = hashIndex (run emptyDb ops_a) @ [(file_hash fd_b, ''id-2'')])
   \<and> length (with_hash (run emptyDb ops_a) ''aa'') = 1
   \<and> length (with_hash (run emptyDb ops_a) ''bb'') = 0"
proof -
  have fresh: "uuids_fresh emptyDb ops_a" by code_simp
  have present: "with_hash (run emptyDb ops_a) (file_hash fd_a) \<noteq> []" by code_simp
  have absent: "with_hash (run emptyDb ops_a) (file_hash fd_b) = []
                \<and> uuid_fresh (run emptyDb ops_a) ''id-2''" by code_simp
  have ins: "''aa'' \<in> set (inserted_hashes ops_a)" "''bb'' \<notin> set (inserted_hashes ops_a)"
    by code_simp+
  show ?thesis
    using insertFile_unique_fingerprint [OF fresh refl, of fd_a "''id-2''" 2000]
      insertFile_unique_fingerprint [OF fresh refl, of fd_b "''id-2''" 2000]
      fresh present absent ins
    by simp
qed

text \<open>
  C6. After any run of inserts and status updates, \<^verbatim>\<open>getStats\<close> reports as many unique
  hashes as files, and the counts per status add up to the number of files.
\<close>

theorem getStats_consistent:
  assumes "uuids_fresh emptyDb ops"
  shows "uniqueHashes (fst (getStats (run emptyDb ops))) = totalFiles (fst (getStats (run emptyDb ops)))
       \<and> sum_list (map snd (processingStats (fst (getStats (run emptyDb ops)))))
           = totalFiles (fst (getStats (run emptyDb ops)))"
proof -
  have "store_inv (run emptyDb ops)" using store_inv_empty assms by (rule store_inv_run)
  then have "length (hashIndex (run emptyDb ops)) = length (files (run emptyDb ops))"
    by (simp add: store_inv_def)
  then show ?thesis
    by (simp add: getStats_def Let_def Map_size_def Map_values_def sum_foldl_countStatus)
qed

theorem getStats_consistent_witness:
  "uuids_fresh emptyDb ops_b
   \<and> fst (getStats (run emptyDb ops_b))
       = \<lparr>totalFiles = 2, uniqueHashes = 2, processingStats = [(Completed, 1), (Pending, 1)]\<rparr>
   \<and> uniqueHashes (fst (getStats (run emptyDb ops_b))) = totalFiles (fst (getStats (run emptyDb ops_b)))
   \<and> sum_list (map snd (processingStats (fst (getStats (run emptyDb ops_b)))))
           = totalFiles (fst (getStats (run emptyDb ops_b)))"
proof -
  have fresh: "uuids_fresh emptyDb ops_b" by code_simp
  have val: "fst (getStats (run emptyDb ops_b))
       = \<lparr>totalFiles = 2, uniqueHashes = 2, processingStats = [(Completed, 1), (Pending, 1)]\<rparr>"
    by code_simp
  show ?thesis using getStats_consistent [OF fresh] fresh val by simp
qed

text \<open>
  C10. The queries \<^verbatim>\<open>findByHash\<close>, \<^verbatim>\<open>findById\<close>, \<^verbatim>\<open>getAllFiles\<close> and \<^verbatim>\<open>getStats\<close> leave the
  store, that is the stored records and the index, exactly as it was.
\<close>

theorem queries_leave_store:
  "snd (findByHash db hash) = db \<and> snd (findById db i) = db
   \<and> snd (getAllFiles db limit offset) = db \<and> snd (getStats db) = db"
  by (simp add: findByHash_def findById_def getAllFiles_def getStats_def Let_def
      split: option.split)

text \<open>
  C7. \<^verbatim>\<open>validateFile\<close> rejects size 0 with "File is empty" and a size above the maximum
  with the "exceeds maximum allowed size" message, two different errors. The upload route
  answers both with status 400 and that error; it does so whatever the hash function is
  (nothing is hashed), leaves the store as it was (no record is created) and starts no job.
\<close>

theorem validation_rejects:
  "validateFile 0 maxSizeBytes = \<lparr>isValid = False, error = Some ''File is empty''\<rparr>
   \<and> (fileSize > maxSizeBytes \<longrightarrow>
        validateFile fileSize maxSizeBytes
          = \<lparr>isValid = False, error = Some (tooLargeMessage fileSize maxSizeBytes)\<rparr>)
   \<and> tooLargeMessage fileSize maxSizeBytes \<noteq> ''File is empty''
   \<and> (upload_size file = 0 \<longrightarrow>
        POST H db (Some file) uuid now = (BadRequest (Some ''File is empty''), db, None))
   \<and> (upload_size file > defaultMaxSizeBytes \<longrightarrow>
        POST H db (Some file) uuid now
          = (BadRequest (Some (tooLargeMessage (upload_size file) defaultMaxSizeBytes)), db, None))
   \<and> (upload_size file = 0 \<or> upload_size file > defaultMaxSizeBytes \<longrightarrow>
        POST H db (Some file) uuid now = POST H' db (Some file) uuid now
        \<and> snd (POST H db (Some file) uuid now) = (db, None))"
  by (simp add: validateFile_def tooLargeMessage_def POST_def Let_def)

theorem validation_rejects_witness:
  "upload_size empty_upload = 0 \<and> upload_size large_upload > defaultMaxSizeBytes
   \<and> (101::nat) > 100
   \<and> validateFile 101 100
        = \<lparr>isValid = False, error = Some ''File size (0MB) exceeds maximum allowed size (0MB)''\<rparr>
   \<and> POST H_example emptyDb (Some empty_upload) ''id-1'' 1000
        = (BadRequest (Some ''File is empty''), emptyDb, None)
   \<and> POST H_example emptyDb (Some large_upload) ''id-1'' 1000
        = (BadRequest (Some ''File size (100MB) exceeds maximum allowed size (100MB)''),
           emptyDb, None)"
proof -
  have e: "upload_size empty_upload = 0" by (simp add: upload_size_def empty_upload_def)
  have l: "upload_size large_upload = 104857601" by (simp add: upload_size_def large_upload_def)
  have m: "tooLargeMessage 104857601 defaultMaxSizeBytes
           = ''File size (100MB) exceeds maximum allowed size (100MB)''"
    by (simp add: tooLargeMessage_def roundMB_def defaultMaxSizeBytes_def show_nat.simps)
  have m': "tooLargeMessage 101 100 = ''File size (0MB) exceeds maximum allowed size (0MB)''"
    by (simp add: tooLargeMessage_def roundMB_def show_nat.simps)
  have d: "defaultMaxSizeBytes < 104857601" by (simp add: defaultMaxSizeBytes_def)
  show ?thesis
    using validation_rejects [of 100 101 empty_upload H_example emptyDb "''id-1''" 1000 H_example]
      validation_rejects [of 100 101 large_upload H_example emptyDb "''id-1''" 1000 H_example]
      e l m m' d
    by simp
qed

text \<open>
  C8. Whenever the job fails, by throwing or by reporting no success, the rest of
  \<^verbatim>\<open>processFileInBackground\<close> stores the status \<^verbatim>\<open>failed\<close> for the record, in whatever state
  the store is by then, and so does the whole job run in one piece. The function has no
  error result: the \<^verbatim>\<open>catch\<close> block turns the exception into the status update.
\<close>

theorem job_failure_recorded:
  assumes "job_failed outcome" and "map_of (files db) fileId = Some r"
  shows "fst (findById (processFileInBackground_resume db fileId outcome) fileId)
           = Some (r\<lparr>processing_status := Failed\<rparr>)
       \<and> (rag fileId fileName fileSize = outcome \<longrightarrow>
            fst (findById (processFileInBackground rag db fileId fileName fileSize) fileId)
              = Some (r\<lparr>processing_status := Failed\<rparr>))"
  using assms
  by (auto simp: job_failed_def processFileInBackground_def processFileInBackground_resume_def
      processFileInBackground_start_def findById_def updateProcessingStatus_lookup
      split: sum.splits)

theorem job_failure_recorded_witness:
  "job_failed (Inl (Error ''boom'')) \<and> job_failed (Inr \<lparr>success = False, chunkCount = 0\<rparr>)
   \<and> map_of (files db_a) ''id-1'' = Some rec_a
   \<and> processing_status rec_a = Pending
   \<and> fst (findById (processFileInBackground (\<lambda>i n s. Inl (Error ''boom'')) db_a ''id-1'' ''a.txt'' 13) ''id-1'')
       = Some (rec_a\<lparr>processing_status := Failed\<rparr>)
   \<and> fst (findById (processFileInBackground (\<lambda>i n s. Inr \<lparr>success = False, chunkCount = 0\<rparr>)
                      db_a ''id-1'' ''a.txt'' 13) ''id-1'')
       = Some (rec_a\<lparr>processing_status := Failed\<rparr>)"
proof -
  have j1: "job_failed (Inl (Error ''boom''))" by (simp add: job_failed_def)
  have j2: "job_failed (Inr \<lparr>success = False, chunkCount = 0\<rparr>)" by (simp add: job_failed_def)
  have r: "map_of (files db_a) ''id-1'' = Some rec_a" by code_simp
  have p: "processing_status rec_a = Pending" by code_simp
  show ?thesis
    using job_failure_recorded [OF j1 r, of "\<lambda>i n s. Inl (Error ''boom'')" "''a.txt''" 13]
      job_failure_recorded [OF j2 r, of "\<lambda>i n s. Inr \<lparr>success = False, chunkCount = 0\<rparr>" "''a.txt''" 13]
      j1 j2 r p
    by simp
qed

text \<open>
  C3 (as stated, refuted). A status update to \<^verbatim>\<open>failed\<close> that carries a chunk count sets the
  record's \<^verbatim>\<open>chunk_count\<close>: the store writes the argument whatever the new status is.
\<close>

theorem chunk_count_set_by_failed_counterexample:
  "map_option chunk_count (map_of (files db_a) ''id-1'') = Some None
   \<and> map_option chunk_count
       (map_of (files (updateProcessingStatus db_a ''id-1'' Failed (Some 7))) ''id-1'')
     = Some (Some 7)"
  by code_simp

text \<open>
  C3 (amended). A status update changes \<^verbatim>\<open>chunk_count\<close> exactly when it carries a chunk
  count, whatever the new status: without one, no record's chunk count changes; with one,
  the addressed record's chunk count becomes that value. The background job passes none
  when it starts and none when the job has failed; when the job has succeeded it passes the
  job's chunk count together with \<^verbatim>\<open>completed\<close>.
\<close>

theorem chunk_count_follows_argument:
  "map chunk_count (records (updateProcessingStatus db i st None)) = map chunk_count (records db)
   \<and> (map_of (files db) i = Some r \<longrightarrow>
        map_of (files (updateProcessingStatus db i st (Some c))) i
          = Some (r\<lparr>processing_status := st, chunk_count := Some c\<rparr>))
   \<and> map chunk_count (records (processFileInBackground_start db fileId))
        = map chunk_count (records db)
   \<and> (job_failed outcome \<longrightarrow>
        map chunk_count (records (processFileInBackground_resume db fileId outcome))
          = map chunk_count (records db))
   \<and> (map_of (files db) fileId = Some r' \<and> success result \<longrightarrow>
        map_of (files (processFileInBackground_resume db fileId (Inr result))) fileId
          = Some (r'\<lparr>processing_status := Completed, chunk_count := Some (chunkCount result)\<rparr>))"
  by (auto simp: updateProcessingStatus_None_chunks updateProcessingStatus_lookup job_failed_def
      processFileInBackground_start_def processFileInBackground_resume_def split: sum.splits)

theorem chunk_count_follows_argument_witness:
  "map_of (files db_a) ''id-1'' = Some rec_a
   \<and> map_of (files (updateProcessingStatus db_a ''id-1'' Processing (Some 3))) ''id-1''
       = Some (rec_a\<lparr>processing_status := Processing, chunk_count := Some 3\<rparr>)
   \<and> job_failed (Inl (Error ''boom''))
   \<and> map chunk_count (records (processFileInBackground_resume db_a ''id-1'' (Inl (Error ''boom''))))
       = map chunk_count (records db_a)
   \<and> success \<lparr>success = True, chunkCount = 4\<rparr>
   \<and> map_of (files (processFileInBackground_resume db_a ''id-1''
                      (Inr \<lparr>success = True, chunkCount = 4\<rparr>))) ''id-1''
       = Some (rec_a\<lparr>processing_status := Completed, chunk_count := Some 4\<rparr>)"
proof -
  have r: "map_of (files db_a) ''id-1'' = Some rec_a" by code_simp
  have j: "job_failed (Inl (Error ''boom''))" by (simp add: job_failed_def)
  show ?thesis
    using chunk_count_follows_argument
      [of db_a "''id-1''" Processing rec_a 3 "''id-1''" "Inl (Error ''boom'')" rec_a
          "\<lparr>success = True, chunkCount = 4\<rparr>"] r j
    by simp
qed

text \<open>
  C4 (as stated, refuted). A record that is \<^verbatim>\<open>completed\<close> and is then updated to \<^verbatim>\<open>failed\<close>
  has its stored status overwritten; \<^verbatim>\<open>updateProcessingStatus\<close> has no error to raise.
\<close>

theorem terminal_status_overwritten_counterexample:
  "map_option processing_status (map_of (files db_c) ''id-1'') = Some Completed
   \<and> map_option processing_status
       (map_of (files (updateProcessingStatus db_c ''id-1'' Failed None)) ''id-1'')
     = Some Failed"
  by code_simp

text \<open>
  C4 (amended). For a record in a terminal state, a status update with a different terminal
  state is accepted and overwrites the stored status (and the chunk count, if one is given);
  applying the same update again is accepted and changes nothing more.
\<close>

theorem terminal_status_overwritten:
  assumes "map_of (files db) i = Some r" and "terminal (processing_status r)"
    and "terminal st" and "st \<noteq> processing_status r"
  shows "map_of (files (updateProcessingStatus db i st c)) i
           = Some (r\<lparr>processing_status := st,
                    chunk_count := (case c of None \<Rightarrow> chunk_count r | Some n \<Rightarrow> Some n)\<rparr>)
       \<and> updateProcessingStatus (updateProcessingStatus db i st c) i st c
           = updateProcessingStatus db i st c"
  using assms(1) by (simp add: updateProcessingStatus_lookup updateProcessingStatus_idem)

theorem terminal_status_overwritten_witness:
  "map_of (files db_c) ''id-1'' = Some rec_c \<and> terminal (processing_status rec_c)
   \<and> terminal Failed \<and> Failed \<noteq> processing_status rec_c
   \<and> map_of (files (updateProcessingStatus db_c ''id-1'' Failed None)) ''id-1''
       = Some (rec_c\<lparr>processing_status := Failed\<rparr>)
   \<and> updateProcessingStatus (updateProcessingStatus db_c ''id-1'' Failed None) ''id-1'' Failed None
       = updateProcessingStatus db_c ''id-1'' Failed None"
proof -
  have r: "map_of (files db_c) ''id-1'' = Some rec_c" by code_simp
  have t: "terminal (processing_status rec_c)" by code_simp
  have d: "Failed \<noteq> processing_status rec_c" by code_simp
  have f: "terminal Failed" by simp
  show ?thesis
    using terminal_status_overwritten [OF r t f d, of None] r t d by simp
qed

text \<open>
  C5. In any store reached by a run, an upload that passes validation and whose fingerprint
  is the fingerprint of a stored record is answered with \<^verbatim>\<open>duplicate: true\<close> and that
  record, field by field: its id, name, hash, size, MIME type, creation time, status and
  chunk count. The store after the request is the store before it, and no job is handed to
  \<^verbatim>\<open>processFileInBackground\<close>.
\<close>

theorem duplicate_upload_no_action:
  assumes "uuids_fresh emptyDb ops" and "db = run emptyDb ops"
    and "valid_upload file"
    and "r \<in> set (records db)" and "file_hash r = H (upload_bytes file)"
  shows "POST H db (Some file) uuid now
         = (UploadResult True ''File already exists in the system''
              \<lparr>j_id = file_id r, j_name = file_name r, j_hash = file_hash r,
               j_size = file_size r, j_mimeType = mime_type r, j_createdAt = created_at r,
               j_processingStatus = processing_status r, j_chunkCount = chunk_count r\<rparr>,
            db, None)"
proof -
  have inv: "store_inv db" using assms(1,2) store_inv_empty by (simp add: store_inv_run)
  obtain k where "(k, r) \<in> set (files db)"
    using assms(4) by (auto simp: records_def Map_values_def)
  with inv have "findByHash db (file_hash r) = (Some r, db)" by (rule findByHash_present)
  then show ?thesis using assms(3,5) by (simp add: POST_duplicate toJson_def)
qed

theorem duplicate_upload_no_action_witness:
  "uuids_fresh emptyDb ops_hello \<and> valid_upload hello_again
   \<and> hello_record \<in> set (records (run emptyDb ops_hello))
   \<and> file_hash hello_record = H_example (upload_bytes hello_again)
   \<and> POST H_example (run emptyDb ops_hello) (Some hello_again) ''id-2'' 2000
       = (UploadResult True ''File already exists in the system''
            \<lparr>j_id = ''id-1'', j_name = ''hello.txt'',
             j_hash = ''dffd6021bb2bd5b0af676290809ec3a53191dd81c7f70a4b28688a362182986f'',
             j_size = 13, j_mimeType = ''text/plain'', j_createdAt = 1000,
             j_processingStatus = Processing, j_chunkCount = None\<rparr>,
          run emptyDb ops_hello, None)"
proof -
  have a: "uuids_fresh emptyDb ops_hello" by code_simp
  have b: "valid_upload hello_again"
    by (simp add: valid_upload_def upload_size_def hello_again_def defaultMaxSizeBytes_def)
  have c: "hello_record \<in> set (records (run emptyDb ops_hello))" by code_simp
  have d: "file_hash hello_record = H_example (upload_bytes hello_again)" by code_simp
  show ?thesis
    using duplicate_upload_no_action
        [of ops_hello "run emptyDb ops_hello" hello_again hello_record H_example "''id-2''" 2000,
         OF a refl b c d]
      a b c d
    by (simp add: hello_record_def)
qed

text \<open>
  C2. Take a store reached by a run that holds no record with the content's fingerprint, and
  a non-empty upload within the size limit. The first upload answers \<^verbatim>\<open>duplicate: false\<close>
  with the new id. After any status updates in between (the background job), a second upload
  of the same bytes answers \<^verbatim>\<open>duplicate: true\<close> with the same id, changes nothing and
  starts no job; \<^verbatim>\<open>getStats\<close> then counts one file more than before the first upload,
  which is exactly one when the store was empty.
\<close>

theorem upload_twice:
  assumes "uuids_fresh emptyDb ops" and "db = run emptyDb ops"
    and "uuid_fresh db uuid"
    and "valid_upload file"
    and "with_hash db (H (upload_bytes file)) = []"
    and "POST H db (Some file) uuid now = (resp1, db1, job1)"
    and "list_all is_update us" and "db1' = run db1 us"
    and "upload_bytes file2 = upload_bytes file"
    and "POST H db1' (Some file2) uuid2 now2 = (resp2, db2, job2)"
  shows "(\<exists>j. resp1 = UploadResult False ''File uploaded successfully and processing started'' j
              \<and> j_id j = uuid)
       \<and> (\<exists>j. resp2 = UploadResult True ''File already exists in the system'' j \<and> j_id j = uuid)
       \<and> db2 = db1' \<and> job2 = None
       \<and> totalFiles (fst (getStats db2)) = Suc (length (records db))
       \<and> (ops = [] \<longrightarrow> totalFiles (fst (getStats db2)) = 1)"
proof -
  let ?h = "H (upload_bytes file)"
  let ?md = "generateFileMetadata file ?h"
  let ?dbi = "snd (insertFile db ?md uuid now)"
  have inv: "store_inv db" using assms(1,2) store_inv_empty by (simp add: store_inv_run)
  have hmd: "file_hash ?md = ?h" by (simp add: generateFileMetadata_def)
  have nh: "\<not> Map_has (hashIndex db) ?h"
    using inv assms(5) by (simp add: Map_has_hashIndex with_hash_empty)
  have nh': "\<not> Map_has (hashIndex db) (file_hash ?md)" using nh hmd by simp
  note p1 = POST_new [of "file" db H uuid now, OF assms(4) nh assms(3)]
  have r1: "resp1 = UploadResult False ''File uploaded successfully and processing started''
              ((toJson ((mkRecord ?md uuid now)\<lparr>processing_status := Processing\<rparr>))
                 \<lparr>j_chunkCount := None\<rparr>)"
    and d1: "db1 = processFileInBackground_start ?dbi uuid"
    using assms(6) p1 by simp_all
  have first: "\<exists>j. resp1 = UploadResult False ''File uploaded successfully and processing started'' j
                  \<and> j_id j = uuid"
    using r1 by (simp add: toJson_def mkRecord_def)
  have invi: "store_inv ?dbi" using inv assms(3) by (simp add: store_inv_insertFile)
  have inv1: "store_inv db1"
    using invi by (simp add: d1 processFileInBackground_start_def store_inv_updateProcessingStatus)
  have keysi: "map fst (files ?dbi) = map fst (files db) @ [uuid]"
    and idxi: "hashIndex ?dbi = hashIndex db @ [(?h, uuid)]"
    using hmd by (simp_all add: insertFile_fresh [OF nh' assms(3)])
  have keys1: "map fst (files db1) = map fst (files db) @ [uuid]"
    and idx1: "hashIndex db1 = hashIndex db @ [(?h, uuid)]"
    using keysi idxi
    by (simp_all add: d1 processFileInBackground_start_def updateProcessingStatus_keys
        updateProcessingStatus_hashIndex)
  have upd: "map fst (files db1') = map fst (files db1)" "hashIndex db1' = hashIndex db1"
    "store_inv db1'"
    using run_updates [OF assms(7), of db1] inv1 assms(8) by simp_all
  have "uuid \<in> set (map fst (files db1'))" using upd(1) keys1 by simp
  then obtain r where mem: "(uuid, r) \<in> set (files db1')" by auto
  have idr: "file_id r = uuid" using upd(3) mem by (auto simp: store_inv_def list_all_iff)
  have "(?h, uuid) \<in> set (hashIndex db1')" using upd(2) idx1 by simp
  then have "(?h, uuid) \<in> (\<lambda>(k, r). (file_hash r, k)) ` set (files db1')"
    using upd(3) by (simp add: store_inv_def)
  then obtain r0 where r0: "(uuid, r0) \<in> set (files db1')" "file_hash r0 = ?h" by auto
  have "distinct (map fst (files db1'))" using upd(3) by (simp add: store_inv_def)
  then have "r0 = r" using r0(1) mem by (meson eq_key_imp_eq_value)
  then have hr: "file_hash r = ?h" using r0(2) by simp
  have fb: "findByHash db1' (H (upload_bytes file2)) = (Some r, db1')"
    using findByHash_present [OF upd(3) mem] hr assms(9) by simp
  have v2: "valid_upload file2"
    using assms(4,9) by (simp add: valid_upload_def upload_size_def)
  have p2: "POST H db1' (Some file2) uuid2 now2
            = (UploadResult True ''File already exists in the system'' (toJson r), db1', None)"
    using v2 fb by (rule POST_duplicate)
  have second: "\<exists>j. resp2 = UploadResult True ''File already exists in the system'' j \<and> j_id j = uuid"
    and d2: "db2 = db1'" and j2: "job2 = None"
    using assms(10) p2 idr by (auto simp: toJson_def)
  have "length (files db1') = length (map fst (files db1'))" by simp
  also have "\<dots> = Suc (length (files db))" using upd(1) keys1 by simp
  finally have total: "totalFiles (fst (getStats db2)) = Suc (length (records db))"
    by (simp add: d2 getStats_def Let_def Map_size_def records_def Map_values_def)
  have "ops = [] \<longrightarrow> totalFiles (fst (getStats db2)) = 1"
    using total assms(2) by (simp add: run_def records_empty)
  with first second d2 j2 total show ?thesis by blast
qed

theorem upload_twice_witness:
  "uuids_fresh emptyDb [] \<and> uuid_fresh (run emptyDb []) ''id-1'' \<and> valid_upload hello
   \<and> with_hash (run emptyDb []) (H_example (upload_bytes hello)) = []
   \<and> list_all is_update job_done
   \<and> upload_bytes hello_again = upload_bytes hello
   \<and> POST H_example (run emptyDb []) (Some hello) ''id-1'' 1000
       = (UploadResult False ''File uploaded successfully and processing started''
            ((toJson hello_record)\<lparr>j_chunkCount := None\<rparr>),
          db_hello, Some (''id-1'', ''hello.txt'', 13))
   \<and> POST H_example (run db_hello job_done) (Some hello_again) ''id-2'' 2000
       = (UploadResult True ''File already exists in the system''
            (toJson (hello_record\<lparr>processing_status := Completed, chunk_count := Some 1\<rparr>)),
          run db_hello job_done, None)
   \<and> totalFiles (fst (getStats (run db_hello job_done))) = 1"
proof -
  have a: "uuids_fresh emptyDb []" by simp
  have b: "uuid_fresh (run emptyDb []) ''id-1''" by code_simp
  have c: "valid_upload hello"
    by (simp add: valid_upload_def upload_size_def hello_def defaultMaxSizeBytes_def)
  have d: "with_hash (run emptyDb []) (H_example (upload_bytes hello)) = []" by code_simp
  have e: "list_all is_update job_done" by (simp add: job_done_def)
  have f: "upload_bytes hello_again = upload_bytes hello" by (simp add: hello_def hello_again_def)
  have p1: "POST H_example (run emptyDb []) (Some hello) ''id-1'' 1000
       = (UploadResult False ''File uploaded successfully and processing started''
            ((toJson hello_record)\<lparr>j_chunkCount := None\<rparr>),
          db_hello, Some (''id-1'', ''hello.txt'', 13))"
    by (simp add: POST_def Let_def validateFile_def upload_size_def hello_def
        defaultMaxSizeBytes_def H_example_def findByHash_def run_def emptyDb_def
        generateFileMetadata_def insertFile_def Map_has_def Map_set_def
        processFileInBackground_start_def updateProcessingStatus_def toJson_def
        hello_record_def db_hello_def)
  have p2: "POST H_example (run db_hello job_done) (Some hello_again) ''id-2'' 2000
       = (UploadResult True ''File already exists in the system''
            (toJson (hello_record\<lparr>processing_status := Completed, chunk_count := Some 1\<rparr>)),
          run db_hello job_done, None)"
    by (simp add: POST_def Let_def validateFile_def upload_size_def hello_again_def
        defaultMaxSizeBytes_def H_example_def findByHash_def run_def job_done_def
        Map_set_def updateProcessingStatus_def toJson_def hello_record_def db_hello_def)
  show ?thesis
    using upload_twice [OF a refl b c d p1 e refl f p2] a b c d e f p1 p2
    by (simp add: records_empty run_def)
qed

text \<open>
  C9. The limit is cut only from above. A store reached by 102 inserts, listed with
  \<^verbatim>\<open>limit=-1\<close> and \<^verbatim>\<open>offset=0\<close>: the limit the route uses is \<open>-1\<close>, which \<^verbatim>\<open>slice\<close> reads as
  an index from the end, and the route returns 101 records, more than the maximum of 100 that
  the claim and the route's own description of \<^verbatim>\<open>limit\<close> give. With \<^verbatim>\<open>limit=abc\<close> the limit
  the route uses is \<^verbatim>\<open>NaN\<close>.
\<close>

theorem list_limit_not_clamped_below:
  "uuids_fresh emptyDb (many_inserts 102)
   \<and> totalFiles (fst (getStats (run emptyDb (many_inserts 102)))) = 102
   \<and> pg_limit (fr_pagination (fst (GET_files parseInt_example (run emptyDb (many_inserts 102))
                                      (Some ''-1'') (Some ''0''))))
       = Num (- 1)
   \<and> length (fr_files (fst (GET_files parseInt_example (run emptyDb (many_inserts 102))
                                 (Some ''-1'') (Some ''0'')))) = 101
   \<and> pg_limit (fr_pagination (fst (GET_files parseInt_example (run emptyDb (many_inserts 102))
                                      (Some ''abc'') (Some ''0''))))
       = NaN"
proof -
  have a: "parseInt_example (orDefault (Some ''-1'') ''50'') = Num (- 1)" by code_simp
  have b: "parseInt_example (orDefault (Some ''0'') ''0'') = Num 0" by code_simp
  have l: "length (files (run emptyDb (many_inserts 102))) = 102"
    by (simp add: many_inserts_store)
  have t: "totalFiles (fst (getStats (run emptyDb (many_inserts 102)))) = 102"
    using l by (simp add: getStats_def Let_def Map_size_def)
  have f: "uuids_fresh emptyDb (many_inserts 102)" by (simp add: many_inserts_store)
  have n: "length (fr_files (fst (GET_files parseInt_example (run emptyDb (many_inserts 102))
                                 (Some ''-1'') (Some ''0'')))) = 101"
    using GET_files_negative_limit [OF a b, of "run emptyDb (many_inserts 102)"] l by simp
  have p: "pg_limit (fr_pagination (fst (GET_files parseInt_example (run emptyDb (many_inserts 102))
                                      (Some ''-1'') (Some ''0'')))) = Num (- 1)"
    using GET_files_fields [of parseInt_example "run emptyDb (many_inserts 102)" "Some ''-1''" "Some ''0''"] a
    by simp
  have c: "parseInt_example (orDefault (Some ''abc'') ''50'') = NaN" by code_simp
  have q: "pg_limit (fr_pagination (fst (GET_files parseInt_example (run emptyDb (many_inserts 102))
                                      (Some ''abc'') (Some ''0'')))) = NaN"
    using GET_files_fields [of parseInt_example "run emptyDb (many_inserts 102)" "Some ''abc''" "Some ''0''"] c
    by simp
  from f t p n q show ?thesis by blast
qed

end
